theory Spec2Isabelle
  imports Main
begin

section \<open>The environment of the program\<close>

text \<open>
  The program of \<^verbatim>\<open>src/vmware_task.py\<close> does nothing but call the operating system:
  it tests and writes files, starts child processes, resolves an address and fetches a
  page. The embedding threads an explicit world through every operation. The world holds
  the platform, the file system, the answers the network and the child processes will
  give, and two journals: the external requests made so far and the lines handed to the
  logger.
\<close>

datatype node = Dir | File string

text \<open>
  The exception classes that occur. All but \<open>CalledProcessError\<close> and \<open>TypeError\<close>
  are subclasses of Python's \<open>OSError\<close> (\<open>socket.error\<close> is an alias of it,
  \<open>socket.herror\<close> and \<open>requests.exceptions.RequestException\<close> derive from it).
  \<open>RequestException\<close> stands for the errors of a single request (no connection, a
  timeout, a URL that cannot be requested); \<open>TooManyRedirects\<close> is a subclass of it.
\<close>

datatype exn =
    OSError
  | FileNotFoundError
  | PermissionError
  | FileExistsError
  | IsADirectoryError
  | NotADirectoryError
  | herror
  | RequestException
  | TooManyRedirects
  | CalledProcessError
  | TypeError

fun isinstance_OSError :: "exn \<Rightarrow> bool" where
  "isinstance_OSError CalledProcessError = False"
| "isinstance_OSError TypeError = False"
| "isinstance_OSError _ = True"

fun isinstance_RequestException :: "exn \<Rightarrow> bool" where
  "isinstance_RequestException RequestException = True"
| "isinstance_RequestException TooManyRedirects = True"
| "isinstance_RequestException _ = False"

text \<open>
  How a child process ends: \<open>Exited n\<close> with exit status \<open>n\<close>, or
  \<open>Signaled k\<close>, killed by signal number \<open>k + 1\<close> (signal numbers start at 1).
\<close>

datatype proc_end = Exited nat | Signaled nat

datatype pyval = PyInt int | PyStr string

text \<open>
  What a caller hands over as the address \<open>ip\<close>: a text, or an object of the module
  \<open>ipaddress\<close>, the type the signatures announce. An address object is given by its
  text, the value of \<open>str(ip)\<close>. The elements of a command list are of the same kind.
\<close>

datatype arg = Str string | IPv4Address string | IPv6Address string

fun str :: "arg \<Rightarrow> string" where
  "str (Str s) = s"
| "str (IPv4Address s) = s"
| "str (IPv6Address s) = s"

datatype event =
    Open_w string
  | Spawn "string list"
  | Shell string
  | Gethostbyaddr string
  | Http_get string nat

datatype logline = Info string | Error string

text \<open>The platform: which module \<open>os.path\<close> is and which class \<open>pathlib.Path\<close> gives.\<close>

datatype platform = Posix | Nt

text \<open>
  A response to a request: its status code and, when the header \<open>Location\<close> is there
  and not empty, the URL that header names (taken relative to the URL requested).
\<close>

record response =
  status_code :: nat
  location :: "string option"

record world =
  os_name :: platform
  files :: "string \<rightharpoonup> node"
  w_ok :: "string set"
  writable :: "string set"
  io_fault :: "string set"
  cwd :: string
  spawn :: "string list \<Rightarrow> proc_end option"
  shell :: "string \<Rightarrow> proc_end"
  dns_ptr :: "string \<rightharpoonup> string"
  http :: "string \<rightharpoonup> response"
  events :: "event list"
  logged :: "logline list"

text \<open>
  \<^item> \<open>files\<close> maps a path string to the object it names; \<open>w_ok\<close> holds the paths
    for which \<open>os.access\<close> reports write permission, \<open>writable\<close> the paths the
    process can in fact write to, \<open>io_fault\<close> the files on which writing data fails
    (a full disk, say).
  \<^item> \<open>spawn argv\<close> is how the program \<open>argv\<close> ends when started directly
    (\<open>None\<close>: it cannot be started), \<open>shell cmd\<close> how the shell ends on the
    command line \<open>cmd\<close>.
  \<^item> \<open>dns_ptr ip\<close> is the host name of the reverse lookup (\<open>None\<close>: the lookup
    fails), \<open>http url\<close> the response to a request for \<open>url\<close> (\<open>None\<close>: the
    request fails and no response arrives).
  An operation returns \<open>Inr b\<close> when the Python method returns \<open>b\<close> and
  \<open>Inl e\<close> when it raises \<open>e\<close>, together with the world it leaves.
\<close>

type_synonym ('a, 'w) result = "(exn + 'a) \<times> 'w"

definition emit :: "event \<Rightarrow> 'a world_scheme \<Rightarrow> 'a world_scheme" where
  "emit e w = w\<lparr>events := events w @ [e]\<rparr>"

text \<open>
  Modelled from the spec: the module \<^verbatim>\<open>src/logger.py\<close> is not among the sources.
  Its \<open>logger.info\<close> and \<open>logger.error\<close> are taken to record the line and return;
  the journal keeps the level and the message as written in the source, placeholders
  not filled in.
\<close>

definition logger_info :: "string \<Rightarrow> 'a world_scheme \<Rightarrow> 'a world_scheme" where
  "logger_info msg w = w\<lparr>logged := logged w @ [Info msg]\<rparr>"

definition logger_error :: "string \<Rightarrow> 'a world_scheme \<Rightarrow> 'a world_scheme" where
  "logger_error msg w = w\<lparr>logged := logged w @ [Error msg]\<rparr>"

subsection \<open>Paths\<close>

text \<open>The separator \<open>/\<close>, and the backslash, the separator of Windows paths.\<close>

definition sep :: char where
  "sep = CHR ''/''"

definition bsl :: char where
  "bsl = CHR 0x5C"

definition rstrip :: "(char \<Rightarrow> bool) \<Rightarrow> string \<Rightarrow> string" where
  "rstrip P s = rev (dropWhile P (rev s))"

fun split_on :: "char \<Rightarrow> string \<Rightarrow> string list" where
  "split_on c [] = [[]]"
| "split_on c (x # xs) =
     (if x = c then [] # split_on c xs
      else (case split_on c xs of [] \<Rightarrow> [[x]] | y # ys \<Rightarrow> (x # y) # ys))"

fun join :: "char \<Rightarrow> string list \<Rightarrow> string" where
  "join c [] = []"
| "join c [x] = x"
| "join c (x # y # ys) = x @ c # join c (y # ys)"

text \<open>
  \<open>s.find(c, start)\<close>: the first position from \<open>start\<close> on that holds \<open>c\<close>.
\<close>

definition str_find :: "string \<Rightarrow> char \<Rightarrow> nat \<Rightarrow> nat option" where
  "str_find s c start =
     (let r = dropWhile (\<lambda>x. x \<noteq> c) (drop start s)
      in if r = [] then None else Some (length s - length r))"

text \<open>
  \<open>os.path.dirname\<close> of \<^verbatim>\<open>posixpath\<close>: everything up to the last separator, with the
  trailing separators removed unless nothing else is left.
\<close>

definition posixpath_dirname :: "string \<Rightarrow> string" where
  "posixpath_dirname p =
     (let head = rev (dropWhile (\<lambda>c. c \<noteq> sep) (rev p))
      in if head \<noteq> [] \<and> head \<noteq> replicate (length head) sep
         then rstrip (\<lambda>c. c = sep) head else head)"

text \<open>
  \<open>os.path.dirname\<close> of \<^verbatim>\<open>ntpath\<close>. Both separators count. The drive is split off
  first: a drive letter with its colon, or the server and share of a UNC path (after the
  prefix of a long UNC path, \<open>unc_prefix\<close>, in any case of its letters, when the path
  has it).
\<close>

definition upper :: "char \<Rightarrow> char" where
  "upper c = (let n = (of_char c :: nat) in if 97 \<le> n \<and> n \<le> 122 then char_of (n - 32) else c)"

definition unc_prefix :: string where
  "unc_prefix = [bsl, bsl] @ ''?'' @ [bsl] @ ''UNC'' @ [bsl]"

definition normsep :: "string \<Rightarrow> string" where
  "normsep p = map (\<lambda>c. if c = sep then bsl else c) p"

definition ntpath_splitdrive :: "string \<Rightarrow> string \<times> string" where
  "ntpath_splitdrive p =
     (let normp = normsep p in
      if 2 \<le> length p \<and> take 2 normp = [bsl, bsl] then
        (let start = (if map upper (take 8 normp) = unc_prefix then 8 else 2) in
         case str_find normp bsl start of
           None \<Rightarrow> (p, [])
         | Some index \<Rightarrow>
             (case str_find normp bsl (index + 1) of
                None \<Rightarrow> (p, [])
              | Some index2 \<Rightarrow> (take index2 p, drop index2 p)))
      else if 2 \<le> length p \<and> normp ! 1 = CHR '':'' then (take 2 p, drop 2 p)
      else ([], p))"

definition ntpath_dirname :: "string \<Rightarrow> string" where
  "ntpath_dirname p0 =
     (let (d, p) = ntpath_splitdrive p0;
          head = rev (dropWhile (\<lambda>c. c \<noteq> bsl \<and> c \<noteq> sep) (rev p));
          stripped = rstrip (\<lambda>c. c = bsl \<or> c = sep) head
      in d @ (if stripped = [] then head else stripped))"

text \<open>
  \<open>str(pathlib.Path(d, name))\<close> for a \<open>name\<close> without separator. On a POSIX
  system: the root of \<open>d\<close> (two leading separators are kept, any other number is
  one), then the parts of \<open>d\<close> that are neither empty nor \<open>.\<close>, then \<open>name\<close>.
\<close>

definition posix_splitroot :: "string \<Rightarrow> string \<times> string \<times> string" where
  "posix_splitroot part =
     (let n = length (takeWhile (\<lambda>c. c = sep) part)
      in if n = 0 then ([], [], part)
         else if n = 2 then ([], [sep, sep], drop n part)
         else ([], [sep], drop n part))"

text \<open>
  On Windows \<open>/\<close> is first made a backslash; then drive and root are split off: an
  extended prefix (\<open>ext_namespace_prefix\<close>), a UNC drive, a drive letter.
\<close>

definition ext_namespace_prefix :: string where
  "ext_namespace_prefix = [bsl, bsl] @ ''?'' @ [bsl]"

definition split_extended_path :: "string \<Rightarrow> string \<times> string" where
  "split_extended_path s =
     (if take 4 s = ext_namespace_prefix then
        (let prefix = take 4 s; s1 = drop 4 s in
         if take 4 s1 = ''UNC'' @ [bsl] then (prefix @ take 3 s1, bsl # drop 3 s1)
         else (prefix, s1))
      else ([], s))"

definition drive_letter :: "char \<Rightarrow> bool" where
  "drive_letter c =
     (let n = (of_char c :: nat) in (65 \<le> n \<and> n \<le> 90) \<or> (97 \<le> n \<and> n \<le> 122))"

definition nt_splitroot :: "string \<Rightarrow> string \<times> string \<times> string" where
  "nt_splitroot part0 =
     (let (prefix, part) =
            (if take 2 part0 = [bsl, bsl] then split_extended_path part0 else ([], part0));
          first = take 1 part;
          second = take 1 (drop 1 part);
          third = take 1 (drop 2 part);
          unc = (if second = [bsl] \<and> first = [bsl] \<and> third \<noteq> [bsl] then
                   (case str_find part bsl 2 of
                      None \<Rightarrow> None
                    | Some index \<Rightarrow>
                        (case str_find part bsl (index + 1) of
                           None \<Rightarrow> Some (length part)
                         | Some index2 \<Rightarrow> if index2 = index + 1 then None else Some index2))
                 else None)
      in case unc of
           Some index2 \<Rightarrow>
             ((if prefix \<noteq> [] then prefix @ drop 1 (take index2 part) else take index2 part),
              [bsl], drop (index2 + 1) part)
         | None \<Rightarrow>
             (let has_drv = (second = '':'' \<and> first \<noteq> [] \<and> drive_letter (hd first));
                  drv = (if has_drv then take 2 part else []);
                  part1 = (if has_drv then drop 2 part else part);
                  first1 = (if has_drv then third else first)
              in if first1 = [bsl]
                 then (prefix @ drv, [bsl], dropWhile (\<lambda>c. c = bsl) part1)
                 else (prefix @ drv, [], part1)))"

definition PurePosixPath :: "string \<Rightarrow> string \<Rightarrow> string" where
  "PurePosixPath d name =
     (let (drv, root, rel) = posix_splitroot d
      in drv @ root @ join sep (filter (\<lambda>x. x \<noteq> [] \<and> x \<noteq> ''.'') (split_on sep rel) @ [name]))"

definition PureWindowsPath :: "string \<Rightarrow> string \<Rightarrow> string" where
  "PureWindowsPath d name =
     (let (drv, root, rel) = nt_splitroot (normsep d)
      in drv @ root @ join bsl (filter (\<lambda>x. x \<noteq> [] \<and> x \<noteq> ''.'') (split_on bsl rel) @ [name]))"

definition os_path_dirname :: "'a world_scheme \<Rightarrow> string \<Rightarrow> string" where
  "os_path_dirname w p =
     (case os_name w of Posix \<Rightarrow> posixpath_dirname p | Nt \<Rightarrow> ntpath_dirname p)"

definition pathlib_Path :: "'a world_scheme \<Rightarrow> string \<Rightarrow> string \<Rightarrow> string" where
  "pathlib_Path w d name =
     (case os_name w of Posix \<Rightarrow> PurePosixPath d name | Nt \<Rightarrow> PureWindowsPath d name)"

subsection \<open>Files\<close>

definition stat :: "'a world_scheme \<Rightarrow> string \<Rightarrow> node option" where
  "stat w p = (if p = [] then None else files w p)"

definition os_path_exists :: "'a world_scheme \<Rightarrow> string \<Rightarrow> bool" where
  "os_path_exists w p = (stat w p \<noteq> None)"

definition os_path_isfile :: "'a world_scheme \<Rightarrow> string \<Rightarrow> bool" where
  "os_path_isfile w p = (case stat w p of Some (File c) \<Rightarrow> True | _ \<Rightarrow> False)"

definition os_access_W_OK :: "'a world_scheme \<Rightarrow> string \<Rightarrow> bool" where
  "os_access_W_OK w p = (os_path_exists w p \<and> p \<in> w_ok w)"

definition os_getcwd :: "'a world_scheme \<Rightarrow> string" where
  "os_getcwd w = cwd w"

text \<open>
  The directory in which a path's last component is looked up; for a bare name that is
  the current directory, \<open>.\<close>.
\<close>

definition parent :: "'a world_scheme \<Rightarrow> string \<Rightarrow> string" where
  "parent w p = (if os_path_dirname w p = [] then ''.'' else os_path_dirname w p)"

text \<open>
  \<open>open(p, "w")\<close>: an existing file is truncated, a missing one is created in its
  directory. Mode \<open>w\<close> never raises \<open>FileExistsError\<close> (only mode \<open>x\<close> does).
  Opening a directory is refused, with \<open>IsADirectoryError\<close> on a POSIX system and
  with \<open>PermissionError\<close> on Windows.
\<close>

definition open_w :: "string \<Rightarrow> 'a world_scheme \<Rightarrow> (unit, 'a world_scheme) result" where
  "open_w p w =
     (let w1 = emit (Open_w p) w in
      if p = [] then (Inl FileNotFoundError, w1)
      else case stat w1 p of
        Some Dir \<Rightarrow>
          (case os_name w1 of
             Posix \<Rightarrow> (Inl IsADirectoryError, w1)
           | Nt \<Rightarrow> (Inl PermissionError, w1))
      | Some (File c) \<Rightarrow>
          if p \<in> writable w1 then (Inr (), w1\<lparr>files := (files w1)(p \<mapsto> File [])\<rparr>)
          else (Inl PermissionError, w1)
      | None \<Rightarrow>
          (case stat w1 (parent w1 p) of
             None \<Rightarrow> (Inl FileNotFoundError, w1)
           | Some (File c) \<Rightarrow> (Inl NotADirectoryError, w1)
           | Some Dir \<Rightarrow>
               if parent w1 p \<in> writable w1
               then (Inr (), w1\<lparr>files := (files w1)(p \<mapsto> File []),
                                 writable := insert p (writable w1)\<rparr>)
               else (Inl PermissionError, w1)))"

text \<open>
  \<open>with open(p, "w") as f: f.write(data)\<close>: the data reaches the file when the
  block is left; if that fails the file stays as \<open>open\<close> left it, empty.
\<close>

definition write_file :: "string \<Rightarrow> string \<Rightarrow> 'a world_scheme \<Rightarrow> (unit, 'a world_scheme) result" where
  "write_file p data w =
     (case open_w p w of
        (Inl e, w1) \<Rightarrow> (Inl e, w1)
      | (Inr u, w1) \<Rightarrow>
          if p \<in> io_fault w1 then (Inl OSError, w1)
          else (Inr (), w1\<lparr>files := (files w1)(p \<mapsto> File data)\<rparr>))"

subsection \<open>Processes\<close>

fun returncode :: "proc_end \<Rightarrow> int" where
  "returncode (Exited n) = int n"
| "returncode (Signaled k) = - (int k + 1)"

fun wait_status :: "proc_end \<Rightarrow> int" where
  "wait_status (Exited n) = 256 * int n"
| "wait_status (Signaled k) = int k + 1"

text \<open>
  The arguments of a command must all be text: for any other object the call raises
  \<open>TypeError\<close> while the command is put together, before a process is started.
\<close>

fun argv :: "arg list \<Rightarrow> string list option" where
  "argv [] = Some []"
| "argv (Str s # as) = map_option ((#) s) (argv as)"
| "argv (_ # as) = None"

text \<open>\<open>subprocess.call(command)\<close>: start the program, wait, give its return code.\<close>

definition subprocess_call :: "arg list \<Rightarrow> 'a world_scheme \<Rightarrow> (int, 'a world_scheme) result" where
  "subprocess_call command w =
     (case argv command of
        None \<Rightarrow> (Inl TypeError, w)
      | Some a \<Rightarrow>
          (case spawn w a of
             None \<Rightarrow> (Inl FileNotFoundError, emit (Spawn a) w)
           | Some e \<Rightarrow> (Inr (returncode e), emit (Spawn a) w)))"

text \<open>
  \<open>subprocess.Popen(args, bufsize)\<close>: the second positional parameter of \<open>Popen\<close>
  is \<open>bufsize\<close>, and the constructor raises \<open>TypeError\<close> before it starts anything
  when that is not an integer.
\<close>

definition subprocess_Popen :: "string \<Rightarrow> pyval \<Rightarrow> 'a world_scheme \<Rightarrow> (proc_end, 'a world_scheme) result" where
  "subprocess_Popen args bufsize w =
     (case bufsize of
        PyStr s \<Rightarrow> (Inl TypeError, w)
      | PyInt n \<Rightarrow>
          (case spawn w [args] of
             None \<Rightarrow> (Inl FileNotFoundError, emit (Spawn [args]) w)
           | Some e \<Rightarrow> (Inr e, emit (Spawn [args]) w)))"

text \<open>
  \<open>os.system(cmd)\<close>: run the command line in a shell; the value is the wait status
  on a POSIX system and the exit code of the shell on Windows.
\<close>

definition os_system :: "string \<Rightarrow> 'a world_scheme \<Rightarrow> (int, 'a world_scheme) result" where
  "os_system cmd w =
     (Inr (case os_name w of
             Posix \<Rightarrow> wait_status (shell w cmd)
           | Nt \<Rightarrow> returncode (shell w cmd)),
      emit (Shell cmd) w)"

subsection \<open>Network\<close>

text \<open>\<open>socket.gethostbyaddr(ip)[0]\<close>: the primary host name, or \<open>socket.herror\<close>.\<close>

definition socket_gethostbyaddr :: "string \<Rightarrow> 'a world_scheme \<Rightarrow> (string, 'a world_scheme) result" where
  "socket_gethostbyaddr ip w =
     (case dns_ptr w ip of
        None \<Rightarrow> (Inl herror, emit (Gethostbyaddr ip) w)
      | Some h \<Rightarrow> (Inr h, emit (Gethostbyaddr ip) w))"

text \<open>
  \<open>requests.get(url, timeout=t)\<close> follows redirects. A response is a redirect when
  its status is one of 301, 302, 303, 307, 308 and it names a location; the location is
  requested in turn, with the same timeout. \<open>max_redirects\<close> redirects are followed;
  a further one raises \<open>TooManyRedirects\<close>. \<open>send k\<close> is the request with \<open>k\<close>
  redirects still allowed.
\<close>

definition get_redirect_target :: "response \<Rightarrow> string option" where
  "get_redirect_target resp =
     (if status_code resp \<in> {301, 302, 303, 307, 308} then location resp else None)"

definition max_redirects :: nat where
  "max_redirects = 30"

fun send :: "nat \<Rightarrow> string \<Rightarrow> nat \<Rightarrow> 'a world_scheme \<Rightarrow> (response, 'a world_scheme) result" where
  "send 0 url t w =
     (case http w url of
        None \<Rightarrow> (Inl RequestException, emit (Http_get url t) w)
      | Some resp \<Rightarrow>
          (case get_redirect_target resp of
             None \<Rightarrow> (Inr resp, emit (Http_get url t) w)
           | Some url' \<Rightarrow> (Inl TooManyRedirects, emit (Http_get url t) w)))"
| "send (Suc k) url t w =
     (case http w url of
        None \<Rightarrow> (Inl RequestException, emit (Http_get url t) w)
      | Some resp \<Rightarrow>
          (case get_redirect_target resp of
             None \<Rightarrow> (Inr resp, emit (Http_get url t) w)
           | Some url' \<Rightarrow> send k url' t (emit (Http_get url t) w)))"

definition requests_get :: "string \<Rightarrow> nat \<Rightarrow> 'a world_scheme \<Rightarrow> (response, 'a world_scheme) result" where
  "requests_get url t w = send max_redirects url t w"

text \<open>
  The URLs that \<open>send k\<close> requests, in order, given the answers \<open>net\<close> of the
  network: the URL itself, then the location of each redirect followed.
\<close>

fun redirect_chain :: "(string \<rightharpoonup> response) \<Rightarrow> nat \<Rightarrow> string \<Rightarrow> string list" where
  "redirect_chain net 0 url = [url]"
| "redirect_chain net (Suc k) url =
     url # (case net url of
              None \<Rightarrow> []
            | Some resp \<Rightarrow>
                (case get_redirect_target resp of
                   None \<Rightarrow> []
                 | Some url' \<Rightarrow> redirect_chain net k url'))"

section \<open>The program\<close>

subsection \<open>The bridge: \<open>Implementation\<close> and \<open>VmwareTask\<close>\<close>

text \<open>
  The abstract class \<open>Implementation\<close> is the record of its five methods over a state
  \<open>'w\<close>; \<open>VmwareTask\<close> holds one implementation and forwards to it.
\<close>

record 'w Implementation =
  validate_path :: "string \<Rightarrow> 'w \<Rightarrow> bool"
  create_text_file :: "string \<Rightarrow> 'w \<Rightarrow> (bool, 'w) result"
  ping_url :: "arg \<Rightarrow> 'w \<Rightarrow> (bool, 'w) result"
  request_and_get :: "arg \<Rightarrow> 'w \<Rightarrow> (bool, 'w) result"
  run_test_batch :: "string \<Rightarrow> 'w \<Rightarrow> (bool, 'w) result"

record 'w VmwareTask =
  implementation :: "'w Implementation"

definition VmwareTask_create_text_file :: "'w VmwareTask \<Rightarrow> string \<Rightarrow> 'w \<Rightarrow> (bool, 'w) result" where
  "VmwareTask_create_text_file self file_path = create_text_file (implementation self) file_path"

definition VmwareTask_ping_url :: "'w VmwareTask \<Rightarrow> arg \<Rightarrow> 'w \<Rightarrow> (bool, 'w) result" where
  "VmwareTask_ping_url self ip = ping_url (implementation self) ip"

definition VmwareTask_request_and_get :: "'w VmwareTask \<Rightarrow> arg \<Rightarrow> 'w \<Rightarrow> (bool, 'w) result" where
  "VmwareTask_request_and_get self ip = request_and_get (implementation self) ip"

definition VmwareTask_run_test_batch :: "'w VmwareTask \<Rightarrow> string \<Rightarrow> 'w \<Rightarrow> (bool, 'w) result" where
  "VmwareTask_run_test_batch self file_name = run_test_batch (implementation self) file_name"

subsection \<open>\<open>WindowsImplementation\<close>\<close>

text \<open>
  A handler \<open>except C\<close> catches the exceptions of class \<open>C\<close> and lets every other
  one pass. \<open>ping_url\<close> puts \<open>ip\<close> into the command as it is; the other methods
  take its text, \<open>str(ip)\<close>.
\<close>

definition Windows_validate_path :: "string \<Rightarrow> 'a world_scheme \<Rightarrow> bool" where
  "Windows_validate_path file_path w =
     (if os_path_exists w file_path
      then (if os_access_W_OK w (os_path_dirname w file_path) then True else False)
      else False)"

definition Windows_create_text_file :: "string \<Rightarrow> 'a world_scheme \<Rightarrow> (bool, 'a world_scheme) result" where
  "Windows_create_text_file path w =
     (if \<not> Windows_validate_path path w then (Inl OSError, w)
      else
        let file_name = pathlib_Path w (os_path_dirname w path) ''Hello.txt'' in
        case write_file file_name ''Hello'' w of
          (Inl e, w1) \<Rightarrow>
            if e = FileExistsError then (Inr False, logger_info ''File already exists'' w1)
            else if isinstance_OSError e then (Inr False, logger_error ''Error creating file'' w1)
            else (Inl e, w1)
        | (Inr u, w1) \<Rightarrow> (Inr True, w1))"

definition Windows_ping_url :: "arg \<Rightarrow> 'a world_scheme \<Rightarrow> (bool, 'a world_scheme) result" where
  "Windows_ping_url ip w =
     (let command = [Str ''ping'', Str ''-n'', Str ''1'', ip] in
      case subprocess_call command w of
        (Inl e, w1) \<Rightarrow> (Inl e, w1)
      | (Inr rc, w1) \<Rightarrow> (Inr (rc = 0), w1))"

definition Windows_request_and_get :: "arg \<Rightarrow> 'a world_scheme \<Rightarrow> (bool, 'a world_scheme) result" where
  "Windows_request_and_get ip w =
     (case socket_gethostbyaddr (str ip) w of
        (Inl e, w1) \<Rightarrow>
          if isinstance_OSError e
          then (Inr False, logger_error ''{ip} does not has a valid dns ptr {e} '' w1)
          else (Inl e, w1)
      | (Inr dns_ptr0, w1) \<Rightarrow>
         (let w2 = logger_info ''dns_ptr is {dns_ptr}'' w1 in
          case requests_get (''http://'' @ dns_ptr0) 10 w2 of
            (Inl e, w3) \<Rightarrow>
              if isinstance_RequestException e
              then (Inr False, logger_error ''Error getting url {e}'' w3)
              else (Inl e, w3)
          | (Inr result, w3) \<Rightarrow>
              (Inr True, logger_info ''Status code {result.status_code}'' w3)))"

definition Windows_run_test_batch :: "string \<Rightarrow> 'a world_scheme \<Rightarrow> (bool, 'a world_scheme) result" where
  "Windows_run_test_batch file_name w =
     (let cwd0 = os_getcwd w;
          w1 = logger_info ''Executing {file_name} at {cwd}'' w in
      if os_path_isfile w1 file_name then
        case subprocess_Popen file_name (PyStr cwd0) w1 of
          (Inl e, w2) \<Rightarrow>
            if e = CalledProcessError
            then (Inr False, logger_error ''Error executing {file_name} at {cwd}'' w2)
            else (Inl e, w2)
        | (Inr p, w2) \<Rightarrow> (Inr True, w2)
      else (Inr False, logger_error ''File {file_name} does not exist'' w1))"

definition WindowsImplementation :: "'a world_scheme Implementation" where
  "WindowsImplementation =
     \<lparr>validate_path = Windows_validate_path,
      create_text_file = Windows_create_text_file,
      ping_url = Windows_ping_url,
      request_and_get = Windows_request_and_get,
      run_test_batch = Windows_run_test_batch\<rparr>"

subsection \<open>\<open>LinuxMacImplementation\<close>\<close>

definition LinuxMac_validate_path :: "string \<Rightarrow> 'a world_scheme \<Rightarrow> bool" where
  "LinuxMac_validate_path file_path w = (if os_path_exists w file_path then True else False)"

definition LinuxMac_create_text_file :: "string \<Rightarrow> 'a world_scheme \<Rightarrow> (bool, 'a world_scheme) result" where
  "LinuxMac_create_text_file path w =
     (if \<not> LinuxMac_validate_path path w
      then (Inr False, logger_error ''File path does not exist'' w)
      else
        let file_name = pathlib_Path w path ''Hello.txt'' in
        case write_file file_name ''Hello'' w of
          (Inl e, w1) \<Rightarrow>
            if e = FileExistsError
            then (Inr True, logger_info ''File already exists. No need to create again'' w1)
            else if e = PermissionError
            then (Inr False, logger_error ''You don't have permission to write the file'' w1)
            else if isinstance_OSError e
            then (Inr False, logger_error ''Error creating file'' w1)
            else (Inl e, w1)
        | (Inr u, w1) \<Rightarrow> (Inr True, w1))"

definition LinuxMac_ping_url :: "arg \<Rightarrow> 'a world_scheme \<Rightarrow> (bool, 'a world_scheme) result" where
  "LinuxMac_ping_url ip w =
     (case os_system (''ping -c 1 '' @ str ip) w of
        (Inl e, w1) \<Rightarrow> (Inl e, w1)
      | (Inr response, w1) \<Rightarrow> if response = 0 then (Inr True, w1) else (Inr False, w1))"

definition LinuxMac_request_and_get :: "arg \<Rightarrow> 'a world_scheme \<Rightarrow> (bool, 'a world_scheme) result" where
  "LinuxMac_request_and_get ip w =
     (case socket_gethostbyaddr (str ip) w of
        (Inl e, w1) \<Rightarrow>
          if isinstance_OSError e
          then (Inr False, logger_error ''{ip} does not has a valid dns ptr {e} '' w1)
          else (Inl e, w1)
      | (Inr dns_ptr0, w1) \<Rightarrow>
         (let w2 = logger_info ''dns_ptr is {dns_ptr}'' w1 in
          case requests_get (''http://'' @ dns_ptr0) 10 w2 of
            (Inl e, w3) \<Rightarrow>
              if isinstance_RequestException e
              then (Inr False, logger_error ''Error getting url {e}'' w3)
              else (Inl e, w3)
          | (Inr result, w3) \<Rightarrow>
              (Inr True, logger_info ''Status code {result.status_code}'' w3)))"

definition LinuxMac_run_test_batch :: "string \<Rightarrow> 'a world_scheme \<Rightarrow> (bool, 'a world_scheme) result" where
  "LinuxMac_run_test_batch file_name w =
     (let w1 = logger_info ''Executing {file_name}'' w in
      if os_path_isfile w1 file_name then
        case os_system (''sh '' @ file_name) w1 of
          (Inl e, w2) \<Rightarrow>
            if isinstance_OSError e
            then (Inr False, logger_error ''Error trying to run {file_name} {e}'' w2)
            else (Inl e, w2)
        | (Inr status, w2) \<Rightarrow> (Inr True, w2)
      else (Inr False, logger_error ''File {file_name} does not exist'' w1))"

definition LinuxMacImplementation :: "'a world_scheme Implementation" where
  "LinuxMacImplementation =
     \<lparr>validate_path = LinuxMac_validate_path,
      create_text_file = LinuxMac_create_text_file,
      ping_url = LinuxMac_ping_url,
      request_and_get = LinuxMac_request_and_get,
      run_test_batch = LinuxMac_run_test_batch\<rparr>"

subsection \<open>\<open>run_tasks\<close>\<close>

text \<open>
  The control logic has no handler of its own: an exception raised by an operation
  leaves \<open>run_tasks\<close> at once.
\<close>

definition run_tasks ::
  "'a world_scheme VmwareTask \<Rightarrow> string \<Rightarrow> arg \<Rightarrow> string \<Rightarrow> 'a world_scheme
     \<Rightarrow> (bool, 'a world_scheme) result" where
  "run_tasks task file_path ip file_name w =
     (let success = True in
      case VmwareTask_create_text_file task file_path w of
        (Inl e, w1) \<Rightarrow> (Inl e, w1)
      | (Inr r1, w1) \<Rightarrow>
         (let (success, w1) =
            (if \<not> r1 then (False, logger_error ''Error creating text file'' w1)
             else (success, logger_info ''Success creating text file '' w1)) in
          case VmwareTask_ping_url task ip w1 of
            (Inl e, w2) \<Rightarrow> (Inl e, w2)
          | (Inr r2, w2) \<Rightarrow>
             (let (success, w2) =
                (if \<not> r2 then (False, logger_error ''Ping failed'' w2)
                 else (success, logger_info ''Success pinging'' w2)) in
              case VmwareTask_request_and_get task ip w2 of
                (Inl e, w3) \<Rightarrow> (Inl e, w3)
              | (Inr r3, w3) \<Rightarrow>
                 (let (success, w3) =
                    (if \<not> r3 then (False, logger_error ''Request get failed'' w3)
                     else (success, logger_info ''Success requesting and getting'' w3)) in
                  case VmwareTask_run_test_batch task file_name w3 of
                    (Inl e, w4) \<Rightarrow> (Inl e, w4)
                  | (Inr r4, w4) \<Rightarrow>
                     (let (success, w4) =
                        (if \<not> r4 then (False, logger_error ''Running test batch failed'' w4)
                         else (success, logger_info ''Success running test batch'' w4))
                      in (Inr success, w4))))))"

subsection \<open>Observing the invocations\<close>

text \<open>
  To say which operations a run invokes, in which order and with which outcome, the world
  is extended by a journal of invocations. \<open>observed impl\<close> behaves as \<open>impl\<close> and
  enters each invocation, with what it returned or raised, in that journal; the journal
  is written by nothing else.
\<close>

datatype call =
    Call_create_text_file string
  | Call_ping_url arg
  | Call_request_and_get arg
  | Call_run_test_batch string

record observed_world = world +
  calls :: "(call \<times> (exn + bool)) list"

definition observing ::
  "('x \<Rightarrow> call) \<Rightarrow> ('x \<Rightarrow> 'a observed_world_scheme \<Rightarrow> (bool, 'a observed_world_scheme) result)
     \<Rightarrow> 'x \<Rightarrow> 'a observed_world_scheme \<Rightarrow> (bool, 'a observed_world_scheme) result" where
  "observing c operation x w =
     (case operation x w of (r, w') \<Rightarrow> (r, w'\<lparr>calls := calls w @ [(c x, r)]\<rparr>))"

definition observed :: "'a observed_world_scheme Implementation \<Rightarrow> 'a observed_world_scheme Implementation" where
  "observed impl =
     \<lparr>validate_path = validate_path impl,
      create_text_file = observing Call_create_text_file (create_text_file impl),
      ping_url = observing Call_ping_url (ping_url impl),
      request_and_get = observing Call_request_and_get (request_and_get impl),
      run_test_batch = observing Call_run_test_batch (run_test_batch impl)\<rparr>"

subsection \<open>Some hosts\<close>

text \<open>
  \<open>good_host\<close> is the POSIX host of the repository's passing test: the directory
  \<^verbatim>\<open>/home/flopezlira\<close> and its parent are writable, the script \<^verbatim>\<open>test.sh\<close> is there,
  every command ends with status 0, the address has a host name and the page answers
  (with status 404). \<open>bare_host\<close> has a read-only root directory and nothing else,
  no command succeeds and nothing resolves. \<open>marked_host\<close> has a writable root
  directory that already holds the marker file. On \<open>loop_host\<close> the page answers
  with a redirect to itself.
\<close>

definition good_host :: world where
  "good_host =
     \<lparr>os_name = Posix,
      files = [''/home'' \<mapsto> Dir, ''/home/flopezlira'' \<mapsto> Dir, ''test.sh'' \<mapsto> File ''exit 0''],
      w_ok = {''/home'', ''/home/flopezlira''},
      writable = {''/home'', ''/home/flopezlira''},
      io_fault = {},
      cwd = ''/home/flopezlira'',
      spawn = (\<lambda>a. Some (Exited 0)),
      shell = (\<lambda>cmd. Exited 0),
      dns_ptr = [''187.188.112.16'' \<mapsto> ''fixed.example.net''],
      http = [''http://fixed.example.net'' \<mapsto> \<lparr>status_code = 404, location = None\<rparr>],
      events = [],
      logged = []\<rparr>"

definition bare_host :: world where
  "bare_host =
     \<lparr>os_name = Posix,
      files = [''/'' \<mapsto> Dir],
      w_ok = {},
      writable = {},
      io_fault = {},
      cwd = ''/'',
      spawn = (\<lambda>a. Some (Exited 1)),
      shell = (\<lambda>cmd. Exited 1),
      dns_ptr = Map.empty,
      http = Map.empty,
      events = [],
      logged = []\<rparr>"

definition marked_host :: world where
  "marked_host =
     \<lparr>os_name = Posix,
      files = [''/'' \<mapsto> Dir, ''/Hello.txt'' \<mapsto> File ''Hello''],
      w_ok = {''/'', ''/Hello.txt''},
      writable = {''/'', ''/Hello.txt''},
      io_fault = {},
      cwd = ''/'',
      spawn = (\<lambda>a. Some (Exited 0)),
      shell = (\<lambda>cmd. Exited 0),
      dns_ptr = Map.empty,
      http = Map.empty,
      events = [],
      logged = []\<rparr>"

definition loop_host :: world where
  "loop_host =
     good_host\<lparr>http := [''http://fixed.example.net'' \<mapsto>
       \<lparr>status_code = 302, location = Some ''http://fixed.example.net''\<rparr>]\<rparr>"

text \<open>
  \<open>windows_host\<close> is the Windows host of the same test: the root directory of drive
  \<^verbatim>\<open>C:\<close> (\<open>C_drive\<close>), in it the directory \<^verbatim>\<open>Users\<close> and in that the directory
  \<^verbatim>\<open>flopezlira\<close>, all writable, and the script \<^verbatim>\<open>test.bat\<close>.
\<close>

definition C_drive :: string where
  "C_drive = ''C:'' @ [bsl]"

definition C_Users :: string where
  "C_Users = C_drive @ ''Users''"

definition C_Users_flopezlira :: string where
  "C_Users_flopezlira = C_Users @ bsl # ''flopezlira''"

definition windows_host :: world where
  "windows_host =
     \<lparr>os_name = Nt,
      files = [C_drive \<mapsto> Dir, C_Users \<mapsto> Dir, C_Users_flopezlira \<mapsto> Dir,
               ''test.bat'' \<mapsto> File ''exit 0''],
      w_ok = {C_drive, C_Users, C_Users_flopezlira},
      writable = {C_drive, C_Users, C_Users_flopezlira},
      io_fault = {},
      cwd = C_Users_flopezlira,
      spawn = (\<lambda>a. Some (Exited 0)),
      shell = (\<lambda>cmd. Exited 0),
      dns_ptr = [''187.188.112.16'' \<mapsto> ''fixed.example.net''],
      http = [''http://fixed.example.net'' \<mapsto> \<lparr>status_code = 404, location = None\<rparr>],
      events = [],
      logged = []\<rparr>"

definition observe :: "world \<Rightarrow> observed_world" where
  "observe w =
     \<lparr>os_name = os_name w, files = files w, w_ok = w_ok w, writable = writable w,
      io_fault = io_fault w, cwd = cwd w, spawn = spawn w, shell = shell w,
      dns_ptr = dns_ptr w, http = http w, events = events w, logged = logged w, calls = []\<rparr>"

section \<open>Properties\<close>

subsection \<open>Facts about the environment\<close>

lemmas environment_defs = Let_def emit_def logger_info_def logger_error_def stat_def
  os_path_exists_def os_path_isfile_def os_access_W_OK_def os_getcwd_def

lemmas posix_path_defs = sep_def rstrip_def posixpath_dirname_def posix_splitroot_def
  PurePosixPath_def os_path_dirname_def pathlib_Path_def parent_def

lemmas nt_path_defs = sep_def bsl_def rstrip_def str_find_def upper_def unc_prefix_def
  normsep_def ntpath_splitdrive_def ntpath_dirname_def ext_namespace_prefix_def
  split_extended_path_def drive_letter_def nt_splitroot_def PureWindowsPath_def
  os_path_dirname_def pathlib_Path_def parent_def C_drive_def C_Users_def
  C_Users_flopezlira_def

lemmas call_defs = subprocess_call_def subprocess_Popen_def os_system_def
  socket_gethostbyaddr_def requests_get_def write_file_def open_w_def

lemmas LinuxMac_defs = LinuxMacImplementation_def LinuxMac_validate_path_def
  LinuxMac_create_text_file_def LinuxMac_ping_url_def LinuxMac_request_and_get_def
  LinuxMac_run_test_batch_def

lemmas Windows_defs = WindowsImplementation_def Windows_validate_path_def
  Windows_create_text_file_def Windows_ping_url_def Windows_request_and_get_def
  Windows_run_test_batch_def

lemmas VmwareTask_defs = VmwareTask_create_text_file_def VmwareTask_ping_url_def
  VmwareTask_request_and_get_def VmwareTask_run_test_batch_def

lemma events_logger [simp]:
  "events (logger_info m w) = events w" "events (logger_error m w) = events w"
  by (simp_all add: logger_info_def logger_error_def)

lemma files_logger [simp]:
  "files (logger_info m w) = files w" "files (logger_error m w) = files w"
  by (simp_all add: logger_info_def logger_error_def)

lemma http_logger [simp]:
  "http (logger_info m w) = http w" "http (logger_error m w) = http w"
  "http (emit e w) = http w"
  by (simp_all add: logger_info_def logger_error_def emit_def)

lemma os_path_isfile_logger [simp]:
  "os_path_isfile (logger_info m w) p = os_path_isfile w p"
  "os_path_isfile (logger_error m w) p = os_path_isfile w p"
  by (simp_all add: os_path_isfile_def stat_def)

lemma open_w_events: "events (snd (open_w p w)) = events w @ [Open_w p]"
  by (simp add: open_w_def emit_def Let_def split: option.split node.split platform.split)

lemma write_file_events: "events (snd (write_file p d w)) = events w @ [Open_w p]"
proof -
  obtain r w1 where o: "open_w p w = (r, w1)" by (cases "open_w p w")
  with open_w_events [of p w] have "events w1 = events w @ [Open_w p]" by simp
  with o show ?thesis by (cases r) (simp_all add: write_file_def)
qed

text \<open>Opening for writing fails with an \<open>OSError\<close>, never with \<open>FileExistsError\<close>.\<close>

lemma open_w_raises:
  "open_w p w = (Inl e, w1) \<Longrightarrow>
     e \<noteq> FileExistsError \<and> isinstance_OSError e \<and> files w1 = files w"
  by (auto simp add: open_w_def emit_def Let_def
      split: option.splits node.splits platform.splits if_splits)

lemma open_w_returns: "open_w p w = (Inr u, w1) \<Longrightarrow> files w1 = (files w)(p \<mapsto> File [])"
  by (auto simp add: open_w_def emit_def stat_def Let_def
      split: option.splits node.splits platform.splits if_splits)

lemma write_file_raises:
  "write_file p d w = (Inl e, w1) \<Longrightarrow> e \<noteq> FileExistsError \<and> isinstance_OSError e"
  by (auto simp add: write_file_def split: prod.splits sum.splits if_splits dest: open_w_raises)

lemma write_file_returns:
  "write_file p d w = (Inr u, w1) \<Longrightarrow> files w1 = (files w)(p \<mapsto> File d)"
  by (auto simp add: write_file_def split: prod.splits sum.splits if_splits
      dest!: open_w_returns)

subsection \<open>The reverse lookup and the page\<close>

text \<open>
  What \<open>send\<close> does is read off the chain of URLs: every one of them is requested, and
  the answer to the last one decides. No answer is an error of the request, a final
  response is returned, and one more redirect is one too many.
\<close>

lemma send_unfold:
  "send k url t w =
     (case http w url of
        None \<Rightarrow> (Inl RequestException, emit (Http_get url t) w)
      | Some resp \<Rightarrow>
          (case get_redirect_target resp of
             None \<Rightarrow> (Inr resp, emit (Http_get url t) w)
           | Some url' \<Rightarrow>
               (case k of
                  0 \<Rightarrow> (Inl TooManyRedirects, emit (Http_get url t) w)
                | Suc k' \<Rightarrow> send k' url' t (emit (Http_get url t) w))))"
  by (cases k) (simp_all split: option.split)

lemma redirect_chain_not_empty [simp]: "redirect_chain net k url \<noteq> []"
  by (cases k) simp_all

lemma send_events:
  "events (snd (send k url t w)) =
     events w @ map (\<lambda>u. Http_get u t) (redirect_chain (http w) k url)"
proof (induction k arbitrary: url w)
  case 0
  show ?case by (simp add: emit_def split: option.split)
next
  case (Suc k)
  show ?case by (simp add: Suc.IH emit_def split: option.split)
qed

lemma redirect_chain_final:
  "net url = Some resp \<Longrightarrow> get_redirect_target resp = None \<Longrightarrow> redirect_chain net k url = [url]"
  by (cases k) simp_all

lemma send_result:
  "fst (send k url t w) =
     (case http w (last (redirect_chain (http w) k url)) of
        None \<Rightarrow> Inl RequestException
      | Some resp \<Rightarrow>
          (case get_redirect_target resp of
             None \<Rightarrow> Inr resp
           | Some url' \<Rightarrow> Inl TooManyRedirects))"
proof (induction k arbitrary: url w)
  case 0
  show ?case by (simp split: option.split)
next
  case (Suc k)
  show ?case by (simp add: Suc.IH split: option.split)
qed

lemma redirect_chain_length: "length (redirect_chain net k url) \<le> Suc k"
  by (induction k arbitrary: url) (simp_all split: option.split)

lemma redirect_chain_exhausted:
  "net (last (redirect_chain net k url)) = Some resp \<Longrightarrow> get_redirect_target resp = Some url' \<Longrightarrow>
     length (redirect_chain net k url) = Suc k"
  by (induction k arbitrary: url) (auto split: option.splits)

lemma send_raises: "fst (send k url t w) = Inl e \<Longrightarrow> isinstance_RequestException e"
  by (auto simp add: send_result split: option.splits)

lemma request_and_get_cases:
  "LinuxMac_request_and_get ip w =
     (case dns_ptr w (str ip) of
        None \<Rightarrow> (Inr False,
          logger_error ''{ip} does not has a valid dns ptr {e} '' (emit (Gethostbyaddr (str ip)) w))
      | Some h \<Rightarrow>
          (case requests_get (''http://'' @ h) 10
                  (logger_info ''dns_ptr is {dns_ptr}'' (emit (Gethostbyaddr (str ip)) w)) of
             (Inl e, w3) \<Rightarrow> (Inr False, logger_error ''Error getting url {e}'' w3)
           | (Inr result, w3) \<Rightarrow> (Inr True, logger_info ''Status code {result.status_code}'' w3)))"
proof (cases "dns_ptr w (str ip)")
  case None
  then show ?thesis
    by (simp add: LinuxMac_request_and_get_def socket_gethostbyaddr_def)
next
  case (Some h)
  let ?w2 = "logger_info ''dns_ptr is {dns_ptr}'' (emit (Gethostbyaddr (str ip)) w)"
  obtain r w3 where g: "requests_get (''http://'' @ h) 10 ?w2 = (r, w3)"
    by (cases "requests_get (''http://'' @ h) 10 ?w2")
  show ?thesis
  proof (cases r)
    case (Inl e)
    with g send_raises [of max_redirects "''http://'' @ h" 10 ?w2 e]
    have "isinstance_RequestException e" by (simp add: requests_get_def)
    with Some g Inl show ?thesis
      by (simp add: LinuxMac_request_and_get_def socket_gethostbyaddr_def)
  next
    case (Inr resp)
    with Some g show ?thesis
      by (simp add: LinuxMac_request_and_get_def socket_gethostbyaddr_def)
  qed
qed

lemma request_and_get_same: "Windows_request_and_get ip w = LinuxMac_request_and_get ip w"
  by (simp add: Windows_request_and_get_def LinuxMac_request_and_get_def)

text \<open>
  Claim C10. The two variants of \<open>request_and_get\<close> are the same function: on every
  address and every world they give the same result and leave the same world, hence
  the same journal of external requests.
\<close>

theorem request_and_get_variants_equal:
  "Windows_request_and_get = LinuxMac_request_and_get"
  by (rule ext)+ (simp add: Windows_request_and_get_def LinuxMac_request_and_get_def)

text \<open>
  Claim C7, as the code has it. In both variants \<open>request_and_get\<close> returns \<open>False\<close>
  when the reverse lookup fails, and then the lookup is the only external request: no
  page is asked for. When the lookup gives a host name, the page \<open>http://\<close>host is
  requested with a timeout of 10 seconds, and after it the location of each redirect, as
  \<open>requests.get\<close> follows them, at most \<open>max_redirects\<close> of them. The result is
  \<open>True\<close> exactly when the last request is answered by a response that is not a
  redirect, whatever its status code; it is \<open>False\<close> exactly when the last request
  fails or is answered by one more redirect, which is then the redirect after
  \<open>max_redirects\<close>. In particular a first response that is not a redirect gives
  \<open>True\<close> after that one request.
\<close>

theorem request_and_get_outcome:
  assumes "f = Windows_request_and_get \<or> f = LinuxMac_request_and_get"
  shows "(dns_ptr w (str ip) = None \<longrightarrow>
            fst (f ip w) = Inr False \<and>
            events (snd (f ip w)) = events w @ [Gethostbyaddr (str ip)])
       \<and> (\<forall>h. dns_ptr w (str ip) = Some h \<longrightarrow>
            (let url = ''http://'' @ h;
                 urls = redirect_chain (http w) max_redirects url
             in events (snd (f ip w)) =
                  events w @ Gethostbyaddr (str ip) # map (\<lambda>u. Http_get u 10) urls
              \<and> (fst (f ip w) = Inr True \<longleftrightarrow>
                   (\<exists>resp. http w (last urls) = Some resp \<and> get_redirect_target resp = None))
              \<and> (fst (f ip w) = Inr False \<longleftrightarrow>
                   http w (last urls) = None \<or>
                   (\<exists>resp url'. http w (last urls) = Some resp \<and>
                      get_redirect_target resp = Some url'))
              \<and> (\<forall>resp. http w url = Some resp \<and> get_redirect_target resp = None \<longrightarrow>
                   fst (f ip w) = Inr True \<and>
                   events (snd (f ip w)) =
                     events w @ [Gethostbyaddr (str ip), Http_get url 10])
              \<and> length urls \<le> max_redirects + 1
              \<and> (\<forall>resp url'. http w (last urls) = Some resp \<and>
                    get_redirect_target resp = Some url' \<longrightarrow>
                    length urls = max_redirects + 1)))"
proof -
  have f: "f ip w = LinuxMac_request_and_get ip w"
    using assms by (auto simp add: request_and_get_same)
  have lookup_fails: "fst (f ip w) = Inr False \<and>
      events (snd (f ip w)) = events w @ [Gethostbyaddr (str ip)]"
    if "dns_ptr w (str ip) = None"
    using that by (simp add: f request_and_get_cases emit_def)
  have page: "events (snd (f ip w)) =
        events w @ Gethostbyaddr (str ip) #
          map (\<lambda>u. Http_get u 10) (redirect_chain (http w) max_redirects (''http://'' @ h))
      \<and> (fst (f ip w) = Inr True \<longleftrightarrow>
           (\<exists>resp. http w (last (redirect_chain (http w) max_redirects (''http://'' @ h)))
                     = Some resp \<and> get_redirect_target resp = None))
      \<and> (fst (f ip w) = Inr False \<longleftrightarrow>
           http w (last (redirect_chain (http w) max_redirects (''http://'' @ h))) = None \<or>
           (\<exists>resp url'. http w (last (redirect_chain (http w) max_redirects (''http://'' @ h)))
                     = Some resp \<and> get_redirect_target resp = Some url'))"
    if h: "dns_ptr w (str ip) = Some h" for h
  proof -
    let ?w2 = "logger_info ''dns_ptr is {dns_ptr}'' (emit (Gethostbyaddr (str ip)) w)"
    let ?url = "''http://'' @ h"
    obtain r w3 where g: "send max_redirects ?url 10 ?w2 = (r, w3)"
      by (cases "send max_redirects ?url 10 ?w2")
    from g send_events [of max_redirects ?url 10 ?w2]
    have ev: "events w3 = events w @ Gethostbyaddr (str ip) #
        map (\<lambda>u. Http_get u 10) (redirect_chain (http w) max_redirects ?url)"
      by (simp add: emit_def)
    from g send_result [of max_redirects ?url 10 ?w2]
    have res: "r = (case http w (last (redirect_chain (http w) max_redirects ?url)) of
        None \<Rightarrow> Inl RequestException
      | Some resp \<Rightarrow>
          (case get_redirect_target resp of
             None \<Rightarrow> Inr resp
           | Some url' \<Rightarrow> Inl TooManyRedirects))"
      by simp
    from h g have "f ip w = (case r of
          Inl e \<Rightarrow> (Inr False, logger_error ''Error getting url {e}'' w3)
        | Inr result \<Rightarrow> (Inr True, logger_info ''Status code {result.status_code}'' w3))"
      by (simp add: f request_and_get_cases requests_get_def split: sum.split)
    with ev res show ?thesis
      by (auto split: sum.splits option.splits)
  qed
  have first_final: "fst (f ip w) = Inr True \<and>
      events (snd (f ip w)) =
        events w @ [Gethostbyaddr (str ip), Http_get (''http://'' @ h) 10]"
    if h: "dns_ptr w (str ip) = Some h"
      and resp: "http w (''http://'' @ h) = Some resp" "get_redirect_target resp = None"
    for h resp
    using page [OF h] resp
      redirect_chain_final [of "http w" "''http://'' @ h" resp max_redirects]
    by simp
  have "dns_ptr w (str ip) = None \<longrightarrow>
      fst (f ip w) = Inr False \<and> events (snd (f ip w)) = events w @ [Gethostbyaddr (str ip)]"
    using lookup_fails by blast
  moreover have "\<forall>h. dns_ptr w (str ip) = Some h \<longrightarrow>
            (let url = ''http://'' @ h;
                 urls = redirect_chain (http w) max_redirects url
             in events (snd (f ip w)) =
                  events w @ Gethostbyaddr (str ip) # map (\<lambda>u. Http_get u 10) urls
              \<and> (fst (f ip w) = Inr True \<longleftrightarrow>
                   (\<exists>resp. http w (last urls) = Some resp \<and> get_redirect_target resp = None))
              \<and> (fst (f ip w) = Inr False \<longleftrightarrow>
                   http w (last urls) = None \<or>
                   (\<exists>resp url'. http w (last urls) = Some resp \<and>
                      get_redirect_target resp = Some url'))
              \<and> (\<forall>resp. http w url = Some resp \<and> get_redirect_target resp = None \<longrightarrow>
                   fst (f ip w) = Inr True \<and>
                   events (snd (f ip w)) =
                     events w @ [Gethostbyaddr (str ip), Http_get url 10])
              \<and> length urls \<le> max_redirects + 1
              \<and> (\<forall>resp url'. http w (last urls) = Some resp \<and>
                    get_redirect_target resp = Some url' \<longrightarrow>
                    length urls = max_redirects + 1))"
    unfolding Let_def
  proof (intro allI impI)
    fix h
    assume h: "dns_ptr w (str ip) = Some h"
    from page [OF h] first_final [OF h]
      redirect_chain_length [of "http w" max_redirects "''http://'' @ h"]
      redirect_chain_exhausted [of "http w" max_redirects "''http://'' @ h"]
    show "events (snd (f ip w)) =
        events w @ Gethostbyaddr (str ip) #
          map (\<lambda>u. Http_get u 10) (redirect_chain (http w) max_redirects (''http://'' @ h))
      \<and> (fst (f ip w) = Inr True \<longleftrightarrow>
           (\<exists>resp. http w (last (redirect_chain (http w) max_redirects (''http://'' @ h)))
                     = Some resp \<and> get_redirect_target resp = None))
      \<and> (fst (f ip w) = Inr False \<longleftrightarrow>
           http w (last (redirect_chain (http w) max_redirects (''http://'' @ h))) = None \<or>
           (\<exists>resp url'. http w (last (redirect_chain (http w) max_redirects (''http://'' @ h)))
                     = Some resp \<and> get_redirect_target resp = Some url'))
      \<and> (\<forall>resp. http w (''http://'' @ h) = Some resp \<and> get_redirect_target resp = None \<longrightarrow>
           fst (f ip w) = Inr True \<and>
           events (snd (f ip w)) =
             events w @ [Gethostbyaddr (str ip), Http_get (''http://'' @ h) 10])
      \<and> length (redirect_chain (http w) max_redirects (''http://'' @ h)) \<le> max_redirects + 1
      \<and> (\<forall>resp url'.
            http w (last (redirect_chain (http w) max_redirects (''http://'' @ h))) = Some resp \<and>
            get_redirect_target resp = Some url' \<longrightarrow>
            length (redirect_chain (http w) max_redirects (''http://'' @ h)) = max_redirects + 1)"
      by (simp only: Suc_eq_plus1 [symmetric]) blast
  qed
  ultimately show ?thesis
    by (rule conjI)
qed

text \<open>
  On \<open>bare_host\<close> nothing resolves: the result is \<open>False\<close> after the lookup alone.
  On \<open>good_host\<close> the page answers 404 and the result is \<open>True\<close>.
\<close>

theorem request_and_get_outcome_witness:
  "fst (LinuxMac_request_and_get (Str ''125.88.88.99'') bare_host) = Inr False
   \<and> events (snd (LinuxMac_request_and_get (Str ''125.88.88.99'') bare_host)) =
       [Gethostbyaddr ''125.88.88.99'']
   \<and> fst (Windows_request_and_get (IPv4Address ''187.188.112.16'') good_host) = Inr True
   \<and> events (snd (Windows_request_and_get (IPv4Address ''187.188.112.16'') good_host)) =
       [Gethostbyaddr ''187.188.112.16'', Http_get ''http://fixed.example.net'' 10]"
  using request_and_get_outcome [of LinuxMac_request_and_get bare_host "Str ''125.88.88.99''"]
    request_and_get_outcome
      [of Windows_request_and_get good_host "IPv4Address ''187.188.112.16''"]
  by (simp add: bare_host_def good_host_def Let_def get_redirect_target_def redirect_chain_final)

text \<open>A page that redirects to itself uses up every redirect allowed.\<close>

lemma send_loop:
  "http w url = Some resp \<Longrightarrow> get_redirect_target resp = Some url \<Longrightarrow>
     fst (send k url t w) = Inl TooManyRedirects \<and>
     events (snd (send k url t w)) = events w @ replicate (Suc k) (Http_get url t)"
proof (induction k arbitrary: w)
  case 0
  then show ?case by (simp add: emit_def)
next
  case (Suc k)
  from Suc.prems have "http (emit (Http_get url t) w) url = Some resp" by simp
  from Suc.IH [OF this Suc.prems(2)] Suc.prems show ?case
    by (simp add: emit_def replicate_append_same)
qed

text \<open>
  Claim C7 as stated fails on a redirect. On \<open>loop_host\<close> the lookup succeeds and
  the page answers every request with status 302 and its own address as location.
  Thirty-one requests are made and each receives that response; none fails. The result
  is \<open>False\<close> all the same.
\<close>

theorem redirect_received_yet_failure:
  "dns_ptr loop_host ''187.188.112.16'' = Some ''fixed.example.net''
   \<and> http loop_host ''http://fixed.example.net'' =
       Some \<lparr>status_code = 302, location = Some ''http://fixed.example.net''\<rparr>
   \<and> fst (LinuxMac_request_and_get (Str ''187.188.112.16'') loop_host) = Inr False
   \<and> fst (Windows_request_and_get (Str ''187.188.112.16'') loop_host) = Inr False
   \<and> events (snd (LinuxMac_request_and_get (Str ''187.188.112.16'') loop_host)) =
       Gethostbyaddr ''187.188.112.16'' # replicate 31 (Http_get ''http://fixed.example.net'' 10)"
proof -
  let ?url = "''http://fixed.example.net''"
  let ?resp = "\<lparr>status_code = 302, location = Some ?url\<rparr>"
  let ?w2 = "logger_info ''dns_ptr is {dns_ptr}'' (emit (Gethostbyaddr ''187.188.112.16'') loop_host)"
  have d: "dns_ptr loop_host ''187.188.112.16'' = Some ''fixed.example.net''"
    by (simp add: loop_host_def good_host_def)
  have h: "http loop_host ?url = Some ?resp"
    by (simp add: loop_host_def good_host_def)
  have e: "events loop_host = []"
    by (simp add: loop_host_def good_host_def)
  have t: "get_redirect_target ?resp = Some ?url"
    by (simp add: get_redirect_target_def)
  from h have "http ?w2 ?url = Some ?resp" by simp
  from send_loop [OF this t, of max_redirects 10] e
  have "fst (requests_get ?url 10 ?w2) = Inl TooManyRedirects"
    and "events (snd (requests_get ?url 10 ?w2)) =
       Gethostbyaddr ''187.188.112.16'' # replicate 31 (Http_get ?url 10)"
    by (simp_all add: requests_get_def max_redirects_def emit_def)
  with d h show ?thesis
    by (simp add: request_and_get_same request_and_get_cases split: prod.splits sum.splits)
      (auto simp add: d)
qed

subsection \<open>The batch file\<close>

text \<open>
  Claim C8. When the path does not name an existing file, \<open>run_test_batch\<close> returns
  \<open>False\<close> in both variants and makes no external request at all; in particular it
  starts no process.
\<close>

theorem run_test_batch_missing_file:
  assumes "\<not> os_path_isfile w file_name"
  shows "fst (Windows_run_test_batch file_name w) = Inr False
       \<and> events (snd (Windows_run_test_batch file_name w)) = events w
       \<and> fst (LinuxMac_run_test_batch file_name w) = Inr False
       \<and> events (snd (LinuxMac_run_test_batch file_name w)) = events w"
  using assms
  by (simp add: Windows_run_test_batch_def LinuxMac_run_test_batch_def Let_def)

theorem run_test_batch_missing_file_witness:
  "\<not> os_path_isfile bare_host ''test2.bat''
   \<and> fst (Windows_run_test_batch ''test2.bat'' bare_host) = Inr False
   \<and> events (snd (Windows_run_test_batch ''test2.bat'' bare_host)) = []
   \<and> fst (LinuxMac_run_test_batch ''test2.bat'' bare_host) = Inr False
   \<and> events (snd (LinuxMac_run_test_batch ''test2.bat'' bare_host)) = []"
proof -
  have missing: "\<not> os_path_isfile bare_host ''test2.bat''"
    by (simp add: os_path_isfile_def stat_def bare_host_def)
  have "events bare_host = []"
    by (simp add: bare_host_def)
  with missing run_test_batch_missing_file [OF missing] show ?thesis
    by simp
qed

subsection \<open>The ping\<close>

lemma returncode_zero: "returncode e = 0 \<longleftrightarrow> e = Exited 0"
  by (cases e) auto

lemma wait_status_zero: "wait_status e = 0 \<longleftrightarrow> e = Exited 0"
  by (cases e) auto

text \<open>
  Given the address as a text, \<open>ping_url\<close> returns \<open>True\<close> if and only if the ping
  utility, run once for one packet (\<^verbatim>\<open>ping -n 1\<close> started directly in the Windows
  variant, \<^verbatim>\<open>ping -c 1\<close> through the shell in the other), exits with status 0. The
  \<open>LinuxMac\<close> variant does so for an address object too, since it takes \<open>str(ip)\<close>.
\<close>

lemma ping_url_exit_status:
  "(fst (Windows_ping_url (Str s) w) = Inr True \<longleftrightarrow>
      spawn w [''ping'', ''-n'', ''1'', s] = Some (Exited 0))
   \<and> events (snd (Windows_ping_url (Str s) w)) = events w @ [Spawn [''ping'', ''-n'', ''1'', s]]
   \<and> (fst (LinuxMac_ping_url ip w) = Inr True \<longleftrightarrow> shell w (''ping -c 1 '' @ str ip) = Exited 0)
   \<and> events (snd (LinuxMac_ping_url ip w)) = events w @ [Shell (''ping -c 1 '' @ str ip)]"
  by (auto simp add: Windows_ping_url_def LinuxMac_ping_url_def subprocess_call_def
      os_system_def emit_def Let_def returncode_zero wait_status_zero
      split: option.splits platform.splits)

text \<open>
  Given an address object, the \<open>Windows\<close> variant puts the object itself into the
  command and \<open>subprocess.call\<close> raises \<open>TypeError\<close>; no process is started.
\<close>

lemma Windows_ping_url_address_object:
  "Windows_ping_url (IPv4Address s) w = (Inl TypeError, w)"
  "Windows_ping_url (IPv6Address s) w = (Inl TypeError, w)"
  by (simp_all add: Windows_ping_url_def subprocess_call_def)

text \<open>
  Claim C9 fails on the code. On \<open>windows_host\<close> the ping utility, run for one packet
  on the address 187.188.112.16, exits with status 0. Given that address as the
  \<open>IPv4Address\<close> of its signature, the \<open>Windows\<close> variant of \<open>ping_url\<close> does not
  return \<open>True\<close>: it raises \<open>TypeError\<close> and leaves the world as it was, the ping
  utility not started. The \<open>LinuxMac\<close> variant, which converts the address with
  \<open>str\<close>, runs the utility and returns \<open>True\<close>; so does the \<open>Windows\<close> variant
  when it is given the text.
\<close>

theorem Windows_ping_url_raises_TypeError:
  "spawn windows_host [''ping'', ''-n'', ''1'', ''187.188.112.16''] = Some (Exited 0)
   \<and> Windows_ping_url (IPv4Address ''187.188.112.16'') windows_host
       = (Inl TypeError, windows_host)
   \<and> LinuxMac_ping_url (IPv4Address ''187.188.112.16'') good_host
       = (Inr True, emit (Shell ''ping -c 1 187.188.112.16'') good_host)
   \<and> Windows_ping_url (Str ''187.188.112.16'') windows_host
       = (Inr True, emit (Spawn [''ping'', ''-n'', ''1'', ''187.188.112.16'']) windows_host)"
  by (simp add: Windows_ping_url_def LinuxMac_ping_url_def subprocess_call_def os_system_def
      windows_host_def good_host_def emit_def)

subsection \<open>The marker file\<close>

text \<open>
  When \<open>create_text_file\<close> returns \<open>True\<close> the file was opened and written: the
  handler for \<open>FileExistsError\<close>, the only other way to \<open>True\<close>, is never entered.
\<close>

lemma LinuxMac_create_text_file_True:
  assumes "LinuxMac_create_text_file path w = (Inr True, w')"
  shows "\<exists>u. write_file (pathlib_Path w path ''Hello.txt'') ''Hello'' w = (Inr u, w')"
proof (cases "write_file (pathlib_Path w path ''Hello.txt'') ''Hello'' w")
  case (Pair r w1)
  show ?thesis
  proof (cases r)
    case (Inl e)
    with Pair write_file_raises [of _ _ w e w1] have "e \<noteq> FileExistsError" by simp
    with assms Pair Inl show ?thesis
      by (simp add: LinuxMac_create_text_file_def Let_def split: if_splits)
  next
    case (Inr u)
    with assms Pair show ?thesis
      by (simp add: LinuxMac_create_text_file_def Let_def split: if_splits)
  qed
qed

lemma Windows_create_text_file_True:
  assumes "Windows_create_text_file path w = (Inr True, w')"
  shows "\<exists>u. write_file (pathlib_Path w (os_path_dirname w path) ''Hello.txt'') ''Hello'' w
           = (Inr u, w')"
proof (cases "write_file (pathlib_Path w (os_path_dirname w path) ''Hello.txt'') ''Hello'' w")
  case (Pair r w1)
  show ?thesis
  proof (cases r)
    case (Inl e)
    with assms Pair show ?thesis
      by (simp add: Windows_create_text_file_def Let_def split: if_splits)
  next
    case (Inr u)
    with assms Pair show ?thesis
      by (simp add: Windows_create_text_file_def Let_def split: if_splits)
  qed
qed

text \<open>
  Whenever \<open>create_text_file\<close> returns \<open>True\<close>, the file system has changed in
  exactly one place, a file \<^verbatim>\<open>Hello.txt\<close> with content \<^verbatim>\<open>Hello\<close>. The \<open>LinuxMac\<close>
  variant has put it into the directory given by the caller, the \<open>Windows\<close> variant
  into \<open>os.path.dirname\<close> of the path given.
\<close>

lemma create_text_file_success_writes_marker:
  "(LinuxMac_create_text_file path w = (Inr True, w') \<longrightarrow>
      files w' = (files w)(pathlib_Path w path ''Hello.txt'' \<mapsto> File ''Hello''))
   \<and> (Windows_create_text_file path w = (Inr True, w') \<longrightarrow>
      files w' = (files w)(pathlib_Path w (os_path_dirname w path) ''Hello.txt''
                    \<mapsto> File ''Hello''))"
  using LinuxMac_create_text_file_True [of path w w']
    Windows_create_text_file_True [of path w w'] write_file_returns
  by blast

text \<open>The paths of the hosts, computed.\<close>

lemma good_host_paths:
  "posixpath_dirname ''/home/flopezlira'' = ''/home''"
  "PurePosixPath ''/home'' ''Hello.txt'' = ''/home/Hello.txt''"
  "PurePosixPath ''/home/flopezlira'' ''Hello.txt'' = ''/home/flopezlira/Hello.txt''"
  "posixpath_dirname ''/home/Hello.txt'' = ''/home''"
  "posixpath_dirname ''/home/flopezlira/Hello.txt'' = ''/home/flopezlira''"
  by (simp_all add: posix_path_defs)

lemma windows_host_paths:
  "ntpath_dirname C_drive = C_drive"
  "ntpath_dirname C_Users_flopezlira = C_Users"
  "ntpath_dirname (C_drive @ ''home2'') = C_drive"
  "PureWindowsPath C_drive ''Hello.txt'' = C_drive @ ''Hello.txt''"
  "PureWindowsPath C_Users ''Hello.txt'' = C_Users @ bsl # ''Hello.txt''"
  "PureWindowsPath C_Users_flopezlira ''Hello.txt'' = C_Users_flopezlira @ bsl # ''Hello.txt''"
  "ntpath_dirname (C_drive @ ''Hello.txt'') = C_drive"
  "ntpath_dirname (C_Users @ bsl # ''Hello.txt'') = C_Users"
  "ntpath_dirname (C_Users_flopezlira @ bsl # ''Hello.txt'') = C_Users_flopezlira"
  by (simp_all add: nt_path_defs)

lemma good_host_LinuxMac_marker:
  "LinuxMac_create_text_file ''/home/flopezlira'' good_host =
     (Inr True,
      good_host\<lparr>files := (files good_host)(''/home/flopezlira/Hello.txt'' \<mapsto> File ''Hello''),
        writable := insert ''/home/flopezlira/Hello.txt'' (writable good_host),
        events := [Open_w ''/home/flopezlira/Hello.txt'']\<rparr>)"
  by (simp add: good_host_def LinuxMac_create_text_file_def LinuxMac_validate_path_def
      environment_defs posix_path_defs write_file_def open_w_def)

lemma good_host_Windows_marker:
  "Windows_create_text_file ''/home/flopezlira'' good_host =
     (Inr True,
      good_host\<lparr>files := (files good_host)(''/home/Hello.txt'' \<mapsto> File ''Hello''),
        writable := insert ''/home/Hello.txt'' (writable good_host),
        events := [Open_w ''/home/Hello.txt'']\<rparr>)"
  by (simp add: good_host_def Windows_create_text_file_def Windows_validate_path_def
      environment_defs posix_path_defs write_file_def open_w_def)

lemma windows_host_LinuxMac_marker:
  "LinuxMac_create_text_file C_Users_flopezlira windows_host =
     (Inr True,
      windows_host\<lparr>files := (files windows_host)
          (C_Users_flopezlira @ bsl # ''Hello.txt'' \<mapsto> File ''Hello''),
        writable := insert (C_Users_flopezlira @ bsl # ''Hello.txt'') (writable windows_host),
        events := [Open_w (C_Users_flopezlira @ bsl # ''Hello.txt'')]\<rparr>)"
  by (simp add: windows_host_def LinuxMac_create_text_file_def LinuxMac_validate_path_def
      environment_defs nt_path_defs write_file_def open_w_def)

lemma windows_host_Windows_marker:
  "Windows_create_text_file C_Users_flopezlira windows_host =
     (Inr True,
      windows_host\<lparr>files := (files windows_host)(C_Users @ bsl # ''Hello.txt'' \<mapsto> File ''Hello''),
        writable := insert (C_Users @ bsl # ''Hello.txt'') (writable windows_host),
        events := [Open_w (C_Users @ bsl # ''Hello.txt'')]\<rparr>)"
  by (simp add: windows_host_def Windows_create_text_file_def Windows_validate_path_def
      environment_defs nt_path_defs write_file_def open_w_def)

text \<open>
  When the path is the root directory of a drive, as in the repository's test, the
  \<open>Windows\<close> variant does write into the directory given.
\<close>

lemma windows_host_Windows_marker_root:
  "Windows_create_text_file C_drive windows_host =
     (Inr True,
      windows_host\<lparr>files := (files windows_host)(C_drive @ ''Hello.txt'' \<mapsto> File ''Hello''),
        writable := insert (C_drive @ ''Hello.txt'') (writable windows_host),
        events := [Open_w (C_drive @ ''Hello.txt'')]\<rparr>)"
  by (simp add: windows_host_def Windows_create_text_file_def Windows_validate_path_def
      environment_defs nt_path_defs write_file_def open_w_def)

text \<open>
  Claim C3 fails on the code, in the \<open>Windows\<close> variant. On \<open>windows_host\<close> the
  directory \<open>C_Users_flopezlira\<close> exists and is writable and the call returns
  \<open>True\<close>, yet no \<^verbatim>\<open>Hello.txt\<close> is in that directory afterwards: the file is in its
  parent directory, \<open>C_Users\<close>. The same happens with the \<open>Windows\<close> variant on
  \<open>good_host\<close>, for the directory \<^verbatim>\<open>/home/flopezlira\<close>. The \<open>LinuxMac\<close> variant
  writes the file into the directory it is given, on either host.
\<close>

theorem Windows_marker_in_parent_directory:
  "os_path_exists windows_host C_Users_flopezlira
   \<and> os_access_W_OK windows_host C_Users_flopezlira
   \<and> fst (Windows_create_text_file C_Users_flopezlira windows_host) = Inr True
   \<and> files (snd (Windows_create_text_file C_Users_flopezlira windows_host))
        (C_Users_flopezlira @ bsl # ''Hello.txt'') = None
   \<and> files (snd (Windows_create_text_file C_Users_flopezlira windows_host))
        (C_Users @ bsl # ''Hello.txt'') = Some (File ''Hello'')
   \<and> files (snd (LinuxMac_create_text_file C_Users_flopezlira windows_host))
        (C_Users_flopezlira @ bsl # ''Hello.txt'') = Some (File ''Hello'')
   \<and> os_path_exists good_host ''/home/flopezlira''
   \<and> os_access_W_OK good_host ''/home/flopezlira''
   \<and> fst (Windows_create_text_file ''/home/flopezlira'' good_host) = Inr True
   \<and> files (snd (Windows_create_text_file ''/home/flopezlira'' good_host))
        ''/home/flopezlira/Hello.txt'' = None
   \<and> files (snd (Windows_create_text_file ''/home/flopezlira'' good_host))
        ''/home/Hello.txt'' = Some (File ''Hello'')
   \<and> files (snd (LinuxMac_create_text_file ''/home/flopezlira'' good_host))
        ''/home/flopezlira/Hello.txt'' = Some (File ''Hello'')"
  by (simp add: good_host_Windows_marker good_host_LinuxMac_marker
      windows_host_Windows_marker windows_host_LinuxMac_marker)
    (simp add: good_host_def windows_host_def environment_defs C_drive_def C_Users_def
      C_Users_flopezlira_def bsl_def)

text \<open>
  Claim C5, as the code has it. The file is opened for writing at most once, and only
  after the variant's own check of the path has passed. Both variants check that the
  path exists. The \<open>Windows\<close> variant checks a write permission as well, with
  \<open>os.access\<close>, before it opens the file; the \<open>LinuxMac\<close> variant checks nothing
  more and opens the file whenever the path exists.
\<close>

theorem write_attempted_after_checks:
  "events (snd (Windows_create_text_file path w)) =
     events w @
       (if os_path_exists w path \<and> os_access_W_OK w (os_path_dirname w path)
        then [Open_w (pathlib_Path w (os_path_dirname w path) ''Hello.txt'')] else [])
   \<and> events (snd (LinuxMac_create_text_file path w)) =
     events w @
       (if os_path_exists w path then [Open_w (pathlib_Path w path ''Hello.txt'')] else [])"
proof -
  have "events (snd (case write_file p d w of
            (Inl e, w1) \<Rightarrow> g e w1 | (Inr u, w1) \<Rightarrow> (Inr True, w1))) = events w @ [Open_w p]"
    if "\<And>e w1. events (snd (g e w1)) = events w1"
    for p d and g :: "exn \<Rightarrow> 'a world_scheme \<Rightarrow> (bool, 'a world_scheme) result"
    using write_file_events [of p d w] that
    by (cases "write_file p d w") (auto split: sum.splits)
  then show ?thesis
    by (simp add: Windows_create_text_file_def LinuxMac_create_text_file_def
        Windows_validate_path_def LinuxMac_validate_path_def Let_def)
qed

text \<open>
  Claim C5 as stated fails for the \<open>LinuxMac\<close> variant. The root directory of
  \<open>bare_host\<close> exists and is not writable; the variant opens \<^verbatim>\<open>/Hello.txt\<close> for
  writing all the same, and returns \<open>False\<close> when that is refused.
\<close>

theorem LinuxMac_writes_without_permission_check:
  "os_path_exists bare_host ''/''
   \<and> \<not> os_access_W_OK bare_host ''/''
   \<and> events (snd (LinuxMac_create_text_file ''/'' bare_host)) = [Open_w ''/Hello.txt'']
   \<and> fst (LinuxMac_create_text_file ''/'' bare_host) = Inr False"
  by (simp add: bare_host_def LinuxMac_create_text_file_def LinuxMac_validate_path_def
      environment_defs posix_path_defs write_file_def open_w_def)

text \<open>
  Claim C2 fails on the code. Given a path that does not exist, the \<open>Windows\<close>
  variant of \<open>create_text_file\<close> does not return a boolean: it raises \<open>OSError\<close>,
  which nothing catches, where the \<open>LinuxMac\<close> variant logs and returns \<open>False\<close>.
\<close>

theorem Windows_create_text_file_raises:
  "Windows_create_text_file ''/home2'' bare_host = (Inl OSError, bare_host)"
  by (simp add: bare_host_def Windows_create_text_file_def Windows_validate_path_def
      environment_defs)

text \<open>
  The same on \<open>windows_host\<close>, for the missing directory \<^verbatim>\<open>home2\<close> of drive
  \<^verbatim>\<open>C:\<close>, the path of the repository's failing test.
\<close>

lemma windows_host_create_text_file_raises:
  "Windows_create_text_file (C_drive @ ''home2'') windows_host = (Inl OSError, windows_host)"
  by (simp add: windows_host_def Windows_create_text_file_def Windows_validate_path_def
      environment_defs C_drive_def C_Users_def C_Users_flopezlira_def bsl_def)

text \<open>
  More ways past the boundary, all in the \<open>Windows\<close> variant: \<open>run_test_batch\<close>
  passes the working directory to \<open>Popen\<close> where the buffer size belongs, so it
  raises \<open>TypeError\<close> whenever the file exists, and never returns \<open>True\<close>;
  \<open>ping_url\<close> lets the error of a ping program that cannot be started through, and
  raises \<open>TypeError\<close> on an address object (\<open>Windows_ping_url_address_object\<close>).
\<close>

lemma Windows_run_test_batch_existing_file:
  "os_path_isfile w file_name \<Longrightarrow> fst (Windows_run_test_batch file_name w) = Inl TypeError"
  by (simp add: Windows_run_test_batch_def subprocess_Popen_def Let_def)

lemma Windows_run_test_batch_never_True:
  "fst (Windows_run_test_batch file_name w) \<noteq> Inr True"
  by (simp add: Windows_run_test_batch_def subprocess_Popen_def Let_def)

lemma Windows_ping_url_not_started:
  "spawn w [''ping'', ''-n'', ''1'', s] = None \<Longrightarrow>
     fst (Windows_ping_url (Str s) w) = Inl FileNotFoundError"
  by (simp add: Windows_ping_url_def subprocess_call_def)

text \<open>The operations of the \<open>LinuxMac\<close> variant always return a boolean.\<close>

lemma LinuxMac_create_text_file_returns:
  "\<exists>b. fst (LinuxMac_create_text_file path w) = Inr b"
proof (cases "write_file (pathlib_Path w path ''Hello.txt'') ''Hello'' w")
  case (Pair r w1)
  then show ?thesis
    using write_file_raises [of "pathlib_Path w path ''Hello.txt''" "''Hello''" w _ w1]
    by (cases r) (auto simp add: LinuxMac_create_text_file_def Let_def)
qed

lemma LinuxMac_operations_return:
  "\<exists>b. fst (LinuxMac_ping_url ip w) = Inr b"
  "\<exists>b. fst (LinuxMac_request_and_get ip w) = Inr b"
  "\<exists>b. fst (LinuxMac_run_test_batch file_name w) = Inr b"
  by (auto simp add: LinuxMac_ping_url_def request_and_get_cases
      LinuxMac_run_test_batch_def os_system_def Let_def split: option.splits prod.splits sum.splits)

text \<open>
  Claim C4 fails on the code, by the same \<open>raise\<close>. The directory \<^verbatim>\<open>/home2\<close> does
  not exist on \<open>bare_host\<close>. Neither variant changes the file system, and the
  \<open>LinuxMac\<close> variant returns \<open>False\<close>; the \<open>Windows\<close> variant raises \<open>OSError\<close>
  instead of returning.
\<close>

theorem Windows_create_text_file_missing_directory:
  "\<not> os_path_exists bare_host ''/home2''
   \<and> fst (Windows_create_text_file ''/home2'' bare_host) = Inl OSError
   \<and> files (snd (Windows_create_text_file ''/home2'' bare_host)) = files bare_host
   \<and> fst (LinuxMac_create_text_file ''/home2'' bare_host) = Inr False
   \<and> files (snd (LinuxMac_create_text_file ''/home2'' bare_host)) = files bare_host"
  by (simp add: bare_host_def Windows_create_text_file_def Windows_validate_path_def
      LinuxMac_create_text_file_def LinuxMac_validate_path_def environment_defs)

text \<open>For every path that does not exist, in every world:\<close>

lemma create_text_file_missing_path:
  assumes "\<not> os_path_exists w path"
  shows "Windows_create_text_file path w = (Inl OSError, w)"
    and "LinuxMac_create_text_file path w = (Inr False, logger_error ''File path does not exist'' w)"
  using assms
  by (simp_all add: Windows_create_text_file_def Windows_validate_path_def
      LinuxMac_create_text_file_def LinuxMac_validate_path_def)

text \<open>
  Claim C6 fails on the code. On \<open>marked_host\<close> the marker file is already in the
  root directory. The file is opened in mode \<open>w\<close>, which truncates an existing file
  and never raises \<open>FileExistsError\<close>, so the handler that would return \<open>False\<close> in
  the \<open>Windows\<close> variant is not entered: both variants overwrite the file and return
  \<open>True\<close>.
\<close>

theorem Windows_create_text_file_existing_marker:
  "files marked_host ''/Hello.txt'' = Some (File ''Hello'')
   \<and> fst (Windows_create_text_file ''/'' marked_host) = Inr True
   \<and> fst (LinuxMac_create_text_file ''/'' marked_host) = Inr True"
  by (simp add: marked_host_def Windows_create_text_file_def Windows_validate_path_def
      LinuxMac_create_text_file_def LinuxMac_validate_path_def
      environment_defs posix_path_defs write_file_def open_w_def)

subsection \<open>The control logic\<close>

lemma calls_logger [simp]:
  "calls (logger_info m w) = calls w" "calls (logger_error m w) = calls w"
  by (simp_all add: logger_info_def logger_error_def)

lemma observing_calls:
  "observing c operation x w = (r, w') \<Longrightarrow> calls w' = calls w @ [(c x, r)]"
  by (auto simp add: observing_def split: prod.splits)

lemma observed_calls:
  "VmwareTask_create_text_file \<lparr>implementation = observed impl\<rparr> a w = (r, w') \<Longrightarrow>
     calls w' = calls w @ [(Call_create_text_file a, r)]"
  "VmwareTask_ping_url \<lparr>implementation = observed impl\<rparr> i w = (r, w') \<Longrightarrow>
     calls w' = calls w @ [(Call_ping_url i, r)]"
  "VmwareTask_request_and_get \<lparr>implementation = observed impl\<rparr> i w = (r, w') \<Longrightarrow>
     calls w' = calls w @ [(Call_request_and_get i, r)]"
  "VmwareTask_run_test_batch \<lparr>implementation = observed impl\<rparr> a w = (r, w') \<Longrightarrow>
     calls w' = calls w @ [(Call_run_test_batch a, r)]"
  by (simp_all add: VmwareTask_defs observed_def observing_calls)

text \<open>
  What \<open>run_tasks\<close> itself does. For every implementation and all inputs, in a run in
  which no invocation raises, the invocations are exactly \<open>create_text_file\<close>,
  \<open>ping_url\<close>, \<open>request_and_get\<close> and \<open>run_test_batch\<close>, once each and in that
  order, whatever the earlier ones returned, and the result is \<open>True\<close> if and only if
  all four returned \<open>True\<close>.
\<close>

lemma run_tasks_invokes_all_four:
  assumes run: "run_tasks \<lparr>implementation = observed impl\<rparr> file_path ip file_name w = (r, w')"
    and no_raise: "\<forall>x \<in> set (drop (length (calls w)) (calls w')). \<exists>b. snd x = Inr b"
  shows "\<exists>b1 b2 b3 b4.
           calls w' = calls w @
             [(Call_create_text_file file_path, Inr b1), (Call_ping_url ip, Inr b2),
              (Call_request_and_get ip, Inr b3), (Call_run_test_batch file_name, Inr b4)]
         \<and> r = Inr (b1 \<and> b2 \<and> b3 \<and> b4)"
proof -
  let ?t = "\<lparr>implementation = observed impl\<rparr>"
  obtain r1 w1 where s1: "VmwareTask_create_text_file ?t file_path w = (r1, w1)"
    by (cases "VmwareTask_create_text_file ?t file_path w")
  note c1 = observed_calls(1) [OF s1]
  show ?thesis
  proof (cases r1)
    case (Inl e)
    with run s1 have "w' = w1" by (simp add: run_tasks_def)
    with c1 Inl no_raise show ?thesis by simp
  next
    case b1: (Inr b1)
    define v1 where "v1 = (if \<not> b1 then logger_error ''Error creating text file'' w1
      else logger_info ''Success creating text file '' w1)"
    have cv1: "calls v1 = calls w1" by (simp add: v1_def)
    obtain r2 w2 where s2: "VmwareTask_ping_url ?t ip v1 = (r2, w2)"
      by (cases "VmwareTask_ping_url ?t ip v1")
    note c2 = observed_calls(2) [OF s2]
    show ?thesis
    proof (cases r2)
      case (Inl e)
      with run s1 b1 s2 have "w' = w2" by (simp add: run_tasks_def v1_def split: if_splits)
      with c1 c2 cv1 Inl no_raise show ?thesis by simp
    next
      case b2: (Inr b2)
      define v2 where "v2 = (if \<not> b2 then logger_error ''Ping failed'' w2
        else logger_info ''Success pinging'' w2)"
      have cv2: "calls v2 = calls w2" by (simp add: v2_def)
      obtain r3 w3 where s3: "VmwareTask_request_and_get ?t ip v2 = (r3, w3)"
        by (cases "VmwareTask_request_and_get ?t ip v2")
      note c3 = observed_calls(3) [OF s3]
      show ?thesis
      proof (cases r3)
        case (Inl e)
        with run s1 b1 s2 b2 s3 have "w' = w3"
          by (simp add: run_tasks_def v1_def v2_def split: if_splits)
        with c1 c2 c3 cv1 cv2 Inl no_raise show ?thesis by simp
      next
        case b3: (Inr b3)
        define v3 where "v3 = (if \<not> b3 then logger_error ''Request get failed'' w3
          else logger_info ''Success requesting and getting'' w3)"
        have cv3: "calls v3 = calls w3" by (simp add: v3_def)
        obtain r4 w4 where s4: "VmwareTask_run_test_batch ?t file_name v3 = (r4, w4)"
          by (cases "VmwareTask_run_test_batch ?t file_name v3")
        note c4 = observed_calls(4) [OF s4]
        show ?thesis
        proof (cases r4)
          case (Inl e)
          with run s1 b1 s2 b2 s3 b3 s4 have "w' = w4"
            by (simp add: run_tasks_def v1_def v2_def v3_def split: if_splits)
          with c1 c2 c3 c4 cv1 cv2 cv3 Inl no_raise show ?thesis by simp
        next
          case b4: (Inr b4)
          with run s1 b1 s2 b2 s3 b3 s4
          have "calls w' = calls w4 \<and> r = Inr (b1 \<and> b2 \<and> b3 \<and> b4)"
            by (auto simp add: run_tasks_def v1_def v2_def v3_def split: if_splits)
          with c1 c2 c3 c4 cv1 cv2 cv3 b1 b2 b3 b4 show ?thesis by simp
        qed
      qed
    qed
  qed
qed

text \<open>
  On \<open>good_host\<close>, with a directory that does not exist, the \<open>LinuxMac\<close> variant
  fails the first check and still runs the other three; the result is \<open>False\<close>.
\<close>

lemma good_host_LinuxMac_run:
  "fst (run_tasks \<lparr>implementation = observed LinuxMacImplementation\<rparr>
          ''/home2/flopezlira'' (Str ''187.188.112.16'') ''test.sh'' (observe good_host)) = Inr False
   \<and> calls (snd (run_tasks \<lparr>implementation = observed LinuxMacImplementation\<rparr>
          ''/home2/flopezlira'' (Str ''187.188.112.16'') ''test.sh'' (observe good_host))) =
       [(Call_create_text_file ''/home2/flopezlira'', Inr False),
        (Call_ping_url (Str ''187.188.112.16''), Inr True),
        (Call_request_and_get (Str ''187.188.112.16''), Inr True),
        (Call_run_test_batch ''test.sh'', Inr True)]"
proof -
  let ?run = "run_tasks \<lparr>implementation = observed LinuxMacImplementation\<rparr>
          ''/home2/flopezlira'' (Str ''187.188.112.16'') ''test.sh'' (observe good_host)"
  have trace: "calls (snd ?run) =
       [(Call_create_text_file ''/home2/flopezlira'', Inr False),
        (Call_ping_url (Str ''187.188.112.16''), Inr True),
        (Call_request_and_get (Str ''187.188.112.16''), Inr True),
        (Call_run_test_batch ''test.sh'', Inr True)]"
    by (simp add: run_tasks_def observed_def observing_def VmwareTask_defs LinuxMac_defs
        good_host_def observe_def environment_defs os_system_def socket_gethostbyaddr_def
        requests_get_def send_unfold get_redirect_target_def)
  have start: "calls (observe good_host) = []"
    by (simp add: observe_def)
  from trace start
  have "\<forall>x \<in> set (drop (length (calls (observe good_host))) (calls (snd ?run))).
          \<exists>b. snd x = Inr b"
    by auto
  from run_tasks_invokes_all_four [OF prod.collapse [symmetric] this] trace start
  show ?thesis by auto
qed

text \<open>
  With the \<open>Windows\<close> variant no run returns \<open>True\<close>, since its \<open>run_test_batch\<close>
  never does.
\<close>

lemma run_tasks_True:
  assumes "fst (run_tasks task file_path ip file_name w) = Inr True"
  shows "\<exists>w3. fst (VmwareTask_run_test_batch task file_name w3) = Inr True"
proof -
  obtain r1 w1 where s1: "VmwareTask_create_text_file task file_path w = (r1, w1)"
    by (cases "VmwareTask_create_text_file task file_path w")
  show ?thesis
  proof (cases r1)
    case (Inl e)
    with assms s1 show ?thesis by (simp add: run_tasks_def)
  next
    case b1: (Inr b1)
    define v1 where "v1 = (if \<not> b1 then logger_error ''Error creating text file'' w1
      else logger_info ''Success creating text file '' w1)"
    obtain r2 w2 where s2: "VmwareTask_ping_url task ip v1 = (r2, w2)"
      by (cases "VmwareTask_ping_url task ip v1")
    show ?thesis
    proof (cases r2)
      case (Inl e)
      with assms s1 b1 s2 show ?thesis by (simp add: run_tasks_def v1_def split: if_splits)
    next
      case b2: (Inr b2)
      define v2 where "v2 = (if \<not> b2 then logger_error ''Ping failed'' w2
        else logger_info ''Success pinging'' w2)"
      obtain r3 w3 where s3: "VmwareTask_request_and_get task ip v2 = (r3, w3)"
        by (cases "VmwareTask_request_and_get task ip v2")
      show ?thesis
      proof (cases r3)
        case (Inl e)
        with assms s1 b1 s2 b2 s3 show ?thesis
          by (simp add: run_tasks_def v1_def v2_def split: if_splits)
      next
        case b3: (Inr b3)
        define v3 where "v3 = (if \<not> b3 then logger_error ''Request get failed'' w3
          else logger_info ''Success requesting and getting'' w3)"
        obtain r4 w4 where s4: "VmwareTask_run_test_batch task file_name v3 = (r4, w4)"
          by (cases "VmwareTask_run_test_batch task file_name v3")
        have "r4 = Inr True"
        proof (cases r4)
          case (Inl e)
          with assms s1 b1 s2 b2 s3 b3 s4 show ?thesis
            by (simp add: run_tasks_def v1_def v2_def v3_def split: if_splits)
        next
          case (Inr b4)
          with assms s1 b1 s2 b2 s3 b3 s4 show ?thesis
            by (auto simp add: run_tasks_def v1_def v2_def v3_def split: if_splits)
        qed
        with s4 have "fst (VmwareTask_run_test_batch task file_name v3) = Inr True" by simp
        then show ?thesis ..
      qed
    qed
  qed
qed

lemma Windows_run_tasks_never_True:
  "fst (run_tasks \<lparr>implementation = WindowsImplementation\<rparr> file_path ip file_name w) \<noteq> Inr True"
  using run_tasks_True [of "\<lparr>implementation = WindowsImplementation\<rparr>" file_path ip file_name w]
  by (auto simp add: VmwareTask_run_test_batch_def WindowsImplementation_def
      Windows_run_test_batch_never_True)

text \<open>
  Claim C1 fails on the code, by the \<open>raise\<close> in \<open>create_text_file\<close>. With the
  \<open>Windows\<close> variant and a directory that does not exist, \<open>create_text_file\<close> raises
  \<open>OSError\<close>; nothing catches it, so the run ends there with that exception, having
  invoked one operation of the four, and returns nothing. On the same input the
  \<open>LinuxMac\<close> variant, whose \<open>create_text_file\<close> returns \<open>False\<close>, goes through
  all four operations and returns \<open>False\<close>. The third run is the repository's passing
  test on \<open>windows_host\<close>: three operations return \<open>True\<close>, then
  \<open>run_test_batch\<close> raises \<open>TypeError\<close>, and the run returns nothing.
\<close>

theorem run_tasks_stops_at_exception:
  "fst (run_tasks \<lparr>implementation = observed WindowsImplementation\<rparr>
          ''/home2'' (Str ''125.88.88.99'') ''test2.bat'' (observe bare_host)) = Inl OSError
   \<and> calls (snd (run_tasks \<lparr>implementation = observed WindowsImplementation\<rparr>
          ''/home2'' (Str ''125.88.88.99'') ''test2.bat'' (observe bare_host))) =
       [(Call_create_text_file ''/home2'', Inl OSError)]
   \<and> fst (run_tasks \<lparr>implementation = observed LinuxMacImplementation\<rparr>
          ''/home2'' (Str ''125.88.88.99'') ''test2.bat'' (observe bare_host)) = Inr False
   \<and> calls (snd (run_tasks \<lparr>implementation = observed LinuxMacImplementation\<rparr>
          ''/home2'' (Str ''125.88.88.99'') ''test2.bat'' (observe bare_host))) =
       [(Call_create_text_file ''/home2'', Inr False),
        (Call_ping_url (Str ''125.88.88.99''), Inr False),
        (Call_request_and_get (Str ''125.88.88.99''), Inr False),
        (Call_run_test_batch ''test2.bat'', Inr False)]
   \<and> fst (run_tasks \<lparr>implementation = observed WindowsImplementation\<rparr>
          C_drive (Str ''187.188.112.16'') ''test.bat'' (observe windows_host)) = Inl TypeError
   \<and> calls (snd (run_tasks \<lparr>implementation = observed WindowsImplementation\<rparr>
          C_drive (Str ''187.188.112.16'') ''test.bat'' (observe windows_host))) =
       [(Call_create_text_file C_drive, Inr True),
        (Call_ping_url (Str ''187.188.112.16''), Inr True),
        (Call_request_and_get (Str ''187.188.112.16''), Inr True),
        (Call_run_test_batch ''test.bat'', Inl TypeError)]"
proof -
  have missing_Windows:
    "run_tasks \<lparr>implementation = observed WindowsImplementation\<rparr>
          ''/home2'' (Str ''125.88.88.99'') ''test2.bat'' (observe bare_host) =
       (Inl OSError, (observe bare_host)\<lparr>calls := [(Call_create_text_file ''/home2'', Inl OSError)]\<rparr>)"
    by (simp add: run_tasks_def observed_def observing_def VmwareTask_defs Windows_defs
        bare_host_def observe_def environment_defs)
  have missing_LinuxMac:
    "fst (run_tasks \<lparr>implementation = observed LinuxMacImplementation\<rparr>
          ''/home2'' (Str ''125.88.88.99'') ''test2.bat'' (observe bare_host)) = Inr False
     \<and> calls (snd (run_tasks \<lparr>implementation = observed LinuxMacImplementation\<rparr>
          ''/home2'' (Str ''125.88.88.99'') ''test2.bat'' (observe bare_host))) =
       [(Call_create_text_file ''/home2'', Inr False),
        (Call_ping_url (Str ''125.88.88.99''), Inr False),
        (Call_request_and_get (Str ''125.88.88.99''), Inr False),
        (Call_run_test_batch ''test2.bat'', Inr False)]"
    by (simp add: run_tasks_def observed_def observing_def VmwareTask_defs LinuxMac_defs
        bare_host_def observe_def environment_defs os_system_def socket_gethostbyaddr_def)
  have passing_Windows:
    "fst (run_tasks \<lparr>implementation = observed WindowsImplementation\<rparr>
          C_drive (Str ''187.188.112.16'') ''test.bat'' (observe windows_host)) = Inl TypeError
     \<and> calls (snd (run_tasks \<lparr>implementation = observed WindowsImplementation\<rparr>
          C_drive (Str ''187.188.112.16'') ''test.bat'' (observe windows_host))) =
       [(Call_create_text_file C_drive, Inr True),
        (Call_ping_url (Str ''187.188.112.16''), Inr True),
        (Call_request_and_get (Str ''187.188.112.16''), Inr True),
        (Call_run_test_batch ''test.bat'', Inl TypeError)]"
    by (simp add: run_tasks_def observed_def observing_def VmwareTask_defs Windows_defs
        windows_host_def observe_def environment_defs nt_path_defs call_defs
        send_unfold get_redirect_target_def)
  from missing_Windows missing_LinuxMac passing_Windows show ?thesis
    by simp
qed

end
